theory Spec2Isabelle
  imports Main "HOL-Library.Word" "HOL-Library.Signed_Division"
begin

unbundle bit_operations_syntax

section \<open>The TCS3472 colour sensor driver and its command-line reader\<close>

text \<open>
  The driver is present in several revisions. The most complete one is the first file of
  \<^verbatim>\<open>src/unnamed/part_001\<close> (with \<^verbatim>\<open>MeasureRaw\<close>, a \<^verbatim>\<open>Halt\<close> and a \<^verbatim>\<open>SetGain\<close> that write
  registers); \<^verbatim>\<open>src/experimental/devices/tcs3472/tcs3472.go\<close> is the package at the import
  path of \<^verbatim>\<open>src/experimental/cmd/tcs3472/main.go\<close>. \<^verbatim>\<open>New\<close>, \<^verbatim>\<open>SetIntegrationTime\<close>,
  \<^verbatim>\<open>MaxCount\<close> and \<^verbatim>\<open>Valid\<close> read the same in both and are modelled once. \<^verbatim>\<open>Halt\<close>,
  \<^verbatim>\<open>SetGain\<close> and \<^verbatim>\<open>Measure\<close> differ: the plain names below are those of
  \<^verbatim>\<open>part_001\<close>, the names ending in \<^verbatim>\<open>_exp\<close> those of \<^verbatim>\<open>experimental/devices/tcs3472/tcs3472.go\<close>.
  The two skeleton revisions (\<^verbatim>\<open>src/unnamed/part_000\<close> and the second file of
  \<^verbatim>\<open>part_001\<close>) have no integration time, no reads and no writes beyond the chip
  identifier and are not modelled.
\<close>

subsection \<open>Machine types\<close>

type_synonym uint8 = "8 word"
type_synonym uint16 = "16 word"
type_synonym uint32 = "32 word"

text \<open>\<^verbatim>\<open>time.Duration\<close> is an \<^verbatim>\<open>int64\<close> count of nanoseconds: a 64-bit word read with \<^const>\<open>sint\<close>.\<close>

type_synonym Duration = "64 word"

definition Microsecond :: Duration where
  "Microsecond = 1000"

definition Millisecond :: Duration where
  "Millisecond = 1000 * Microsecond"

text \<open>Go's \<^verbatim>\<open>/\<close> on \<^verbatim>\<open>int64\<close> truncates towards zero.\<close>

definition int64_quo :: "64 word \<Rightarrow> 64 word \<Rightarrow> 64 word" where
  "int64_quo a b = word_of_int (sint a sdiv sint b)"

text \<open>
  A Go \<^verbatim>\<open>error\<close> is \<open>error option\<close>, \<^verbatim>\<open>nil\<close> being \<open>None\<close>. The driver creates two errors of
  its own; every other error comes from the bus.
\<close>

datatype error =
    BusError nat
  | IntegrationTimeRange   \<comment> \<open>\<^verbatim>\<open>errors.New("integration time must be between 2.4 and 612 ms")\<close>\<close>
  | UnexpectedChipID uint8 \<comment> \<open>\<^verbatim>\<open>fmt.Errorf("tcs3472: unexpected chip ID 0x%x", id)\<close>\<close>

subsection \<open>The register transport\<close>

text \<open>
  Modelled from the spec: the methods \<^verbatim>\<open>ReadUint8\<close>, \<^verbatim>\<open>ReadUint16\<close> and \<^verbatim>\<open>WriteUint8\<close> of
  \<^verbatim>\<open>mmr.Dev8\<close> over an \<^verbatim>\<open>i2c.Dev\<close> (package \<^verbatim>\<open>periph.io/x/periph/conn/mmr\<close>), which are
  not among the sources at hand. After the contract of the specification (a write
  succeeds or fails; a read gives a byte, or a big-endian 16-bit value, or fails) the
  device is a parameter: three functions that give its reply to a transaction, given the
  transactions made so far. Every run of a device is the run of such functions, so what
  is proved for all of them holds of every device. The transport keeps the list of the
  transactions, oldest first. As in Go a read returns a value and an error side by side.
\<close>

datatype xfer =
    RdUint8 uint8 uint8 "error option"    \<comment> \<open>register, value read, error\<close>
  | RdUint16 uint8 uint16 "error option"  \<comment> \<open>register, value read, error\<close>
  | WrUint8 uint8 uint8 "error option"    \<comment> \<open>register, value written, error\<close>

record Dev8 =
  rd8 :: "xfer list \<Rightarrow> uint8 \<Rightarrow> uint8 \<times> error option"
  rd16 :: "xfer list \<Rightarrow> uint8 \<Rightarrow> uint16 \<times> error option"
  wr8 :: "xfer list \<Rightarrow> uint8 \<Rightarrow> uint8 \<Rightarrow> error option"
  xfers :: "xfer list"

definition ReadUint8 :: "uint8 \<Rightarrow> Dev8 \<Rightarrow> (uint8 \<times> error option) \<times> Dev8" where
  "ReadUint8 reg m =
     (let r = rd8 m (xfers m) reg
      in (r, m\<lparr>xfers := xfers m @ [RdUint8 reg (fst r) (snd r)]\<rparr>))"

definition ReadUint16 :: "uint8 \<Rightarrow> Dev8 \<Rightarrow> (uint16 \<times> error option) \<times> Dev8" where
  "ReadUint16 reg m =
     (let r = rd16 m (xfers m) reg
      in (r, m\<lparr>xfers := xfers m @ [RdUint16 reg (fst r) (snd r)]\<rparr>))"

definition WriteUint8 :: "uint8 \<Rightarrow> uint8 \<Rightarrow> Dev8 \<Rightarrow> error option \<times> Dev8" where
  "WriteUint8 reg v m =
     (let e = wr8 m (xfers m) reg v
      in (e, m\<lparr>xfers := xfers m @ [WrUint8 reg v e]\<rparr>))"

subsection \<open>Constants of the driver\<close>

definition chipID :: uint8 where "chipID = 0x44"
definition chipIDAlt :: uint8 where "chipIDAlt = 0x4D"

definition regCmd :: uint8 where "regCmd = 0x80"
definition cmdAutoIncrement :: uint8 where "cmdAutoIncrement = 0x20"

definition cmdEnable :: uint8 where "cmdEnable = regCmd OR 0"
definition cmdATime :: uint8 where "cmdATime = regCmd OR 1"
definition cmdGain :: uint8 where "cmdGain = regCmd OR 0x0f"
definition cmdChipID :: uint8 where "cmdChipID = regCmd OR 0x12"
definition cmdStatus :: uint8 where "cmdStatus = regCmd OR 0x13"

definition cmdReadClear :: uint8 where "cmdReadClear = regCmd OR cmdAutoIncrement OR 0x14"
definition cmdReadRed :: uint8 where "cmdReadRed = regCmd OR cmdAutoIncrement OR 0x16"
definition cmdReadGreen :: uint8 where "cmdReadGreen = regCmd OR cmdAutoIncrement OR 0x18"
definition cmdReadBlue :: uint8 where "cmdReadBlue = regCmd OR cmdAutoIncrement OR 0x1a"

definition enableRGBC :: uint8 where "enableRGBC = push_bit 1 1"
definition enablePower :: uint8 where "enablePower = 1"

definition statusValid :: uint8 where "statusValid = 1"

subsection \<open>The device handle\<close>

record Dev =
  dev :: Dev8
  maxCount :: uint32

text \<open>
  \<^verbatim>\<open>SetIntegrationTime\<close> (part_001 lines 133-149, tcs3472.go lines 114-130): the field
  \<^verbatim>\<open>maxCount\<close> is assigned before the register is written.
\<close>

definition SetIntegrationTime :: "Duration \<Rightarrow> Dev \<Rightarrow> error option \<times> Dev" where
  "SetIntegrationTime dur d =
     (if dur <s 2400 * Microsecond \<or> 612 * Millisecond <s dur
      then (Some IntegrationTimeRange, d)
      else
        let atime = 255 - (ucast (int64_quo dur 2400000) :: uint8);
            d1 = d\<lparr>maxCount := (ucast atime :: uint32) * 1024\<rparr>;
            d2 = (if 65535 < maxCount d1 then d1\<lparr>maxCount := 65535\<rparr> else d1);
            (err, m) = WriteUint8 cmdATime atime (dev d2)
        in if err \<noteq> None then (err, d2\<lparr>dev := m\<rparr>) else (None, d2\<lparr>dev := m\<rparr>))"

definition MaxCount :: "Dev \<Rightarrow> uint32" where
  "MaxCount d = maxCount d"

text \<open>
  \<^verbatim>\<open>New\<close> (part_001 lines 91-118, tcs3472.go lines 73-100). The argument is the register
  transport built over the bus; the result is the pair \<^verbatim>\<open>(*Dev, error)\<close>, a \<^verbatim>\<open>nil\<close> handle
  being \<open>None\<close>, next to the transport as the call leaves it.
\<close>

definition New :: "Dev8 \<Rightarrow> (Dev option \<times> error option) \<times> Dev8" where
  "New b =
     (let d = \<lparr>dev = b, maxCount = 0\<rparr>;
          ((id, err), m) = ReadUint8 cmdChipID (dev d);
          d = d\<lparr>dev := m\<rparr>
      in if err \<noteq> None then ((None, err), dev d)
         else if id \<noteq> chipID \<and> id \<noteq> chipIDAlt
         then ((None, Some (UnexpectedChipID id)), dev d)
         else
           let (err, m) = WriteUint8 cmdEnable (enablePower OR enableRGBC) (dev d);
               d = d\<lparr>dev := m\<rparr>
           in if err \<noteq> None then ((None, err), dev d)
              else
                let (err, d) = SetIntegrationTime (511 * Millisecond) d
                in if err \<noteq> None then ((None, err), dev d)
                   else ((Some d, None), dev d))"

text \<open>\<^verbatim>\<open>Halt\<close>: part_001 lines 127-129 write the enable register; tcs3472.go lines 108-110 do nothing.\<close>

definition Halt :: "Dev \<Rightarrow> error option \<times> Dev" where
  "Halt d = (let (err, m) = WriteUint8 cmdEnable 0 (dev d) in (err, d\<lparr>dev := m\<rparr>))"

definition Halt_exp :: "Dev \<Rightarrow> error option \<times> Dev" where
  "Halt_exp d = (None, d)"

text \<open>\<^verbatim>\<open>Gain\<close> is a named \<^verbatim>\<open>uint8\<close>.\<close>

type_synonym Gain = uint8

definition G1x :: Gain where "G1x = 0"
definition G4x :: Gain where "G4x = 1"
definition G16x :: Gain where "G16x = 2"
definition G60x :: Gain where "G60x = 3"

text \<open>\<^verbatim>\<open>SetGain\<close>: part_001 lines 160-162; tcs3472.go lines 140-142.\<close>

definition SetGain :: "Gain \<Rightarrow> Dev \<Rightarrow> error option \<times> Dev" where
  "SetGain g d = (let (err, m) = WriteUint8 cmdGain g (dev d) in (err, d\<lparr>dev := m\<rparr>))"

definition SetGain_exp :: "Gain \<Rightarrow> Dev \<Rightarrow> error option \<times> Dev" where
  "SetGain_exp g d = (None, d)"

text \<open>\<^verbatim>\<open>Valid\<close> (part_001 lines 196-203, tcs3472.go lines 179-186).\<close>

definition Valid :: "Dev \<Rightarrow> (bool \<times> error option) \<times> Dev" where
  "Valid d =
     (let ((status, err), m) = ReadUint8 cmdStatus (dev d);
          d = d\<lparr>dev := m\<rparr>
      in if err \<noteq> None then ((False, err), d)
         else ((0 < status AND statusValid, None), d))"

subsection \<open>Measurements\<close>

text \<open>
  \<^verbatim>\<open>float32\<close> values are kept as the expressions that compute them: the conversion of a
  \<^verbatim>\<open>uint16\<close> (exact, and \<^verbatim>\<open>float32(0)\<close> is the zero value of the type) and the quotient of
  two values. Nothing is said about the rounding of the quotient.
\<close>

datatype float32 = Float32 uint16 | Quo float32 float32

text \<open>The field \<^verbatim>\<open>Int\<close> of \<^verbatim>\<open>Light\<close> is written \<open>Int'\<close>.\<close>

record Light =
  Int' :: uint16
  R :: float32
  G :: float32
  B :: float32

text \<open>\<^verbatim>\<open>RawValues\<close> is \<^verbatim>\<open>[4]uint16\<close>: a list of length four, indexed by the constants below.\<close>

type_synonym RawValues = "uint16 list"

definition ClearVal :: nat where "ClearVal = 0"
definition RedVal :: nat where "RedVal = 1"
definition GreenVal :: nat where "GreenVal = 2"
definition BlueVal :: nat where "BlueVal = 3"

text \<open>
  \<^verbatim>\<open>MeasureRaw\<close> (part_001 lines 179-193): the results are named, each read is assigned to
  its slot of \<^verbatim>\<open>vals\<close> before the error is looked at, and the bare \<^verbatim>\<open>return\<close> hands back
  \<^verbatim>\<open>vals\<close> as it stands next to the error.
\<close>

definition MeasureRaw :: "Dev \<Rightarrow> (RawValues \<times> error option) \<times> Dev" where
  "MeasureRaw d =
     (let vals = replicate 4 0;
          ((v, err), m) = ReadUint16 cmdReadClear (dev d);
          vals = vals[ClearVal := v];
          d = d\<lparr>dev := m\<rparr>
      in if err \<noteq> None then ((vals, err), d)
         else
           let ((v, err), m) = ReadUint16 cmdReadRed (dev d);
               vals = vals[RedVal := v];
               d = d\<lparr>dev := m\<rparr>
           in if err \<noteq> None then ((vals, err), d)
              else
                let ((v, err), m) = ReadUint16 cmdReadGreen (dev d);
                    vals = vals[GreenVal := v];
                    d = d\<lparr>dev := m\<rparr>
                in if err \<noteq> None then ((vals, err), d)
                   else
                     let ((v, err), m) = ReadUint16 cmdReadBlue (dev d);
                         vals = vals[BlueVal := v];
                         d = d\<lparr>dev := m\<rparr>
                     in if err \<noteq> None then ((vals, err), d)
                        else ((vals, err), d))"

text \<open>
  \<^verbatim>\<open>Measure\<close> (part_001 lines 165-176) takes a pointer to the caller's \<^verbatim>\<open>Light\<close>: the model
  takes the value and returns it as the call leaves it.
\<close>

definition Measure :: "Light \<Rightarrow> Dev \<Rightarrow> (error option \<times> Light) \<times> Dev" where
  "Measure l d =
     (let ((vals, err), d) = MeasureRaw d
      in if err \<noteq> None then ((err, l), d)
         else
           let l = l\<lparr>Int' := vals ! ClearVal\<rparr>;
               l = l\<lparr>R := Quo (Float32 (vals ! RedVal)) (Float32 (Int' l))\<rparr>;
               l = l\<lparr>G := Quo (Float32 (vals ! GreenVal)) (Float32 (Int' l))\<rparr>;
               l = l\<lparr>B := Quo (Float32 (vals ! BlueVal)) (Float32 (Int' l))\<rparr>
           in ((None, l), d))"

text \<open>
  \<^verbatim>\<open>Measure\<close> of tcs3472.go (lines 153-176) reads the clear channel straight into
  \<^verbatim>\<open>l.Int\<close>, before its error is looked at.
\<close>

definition Measure_exp :: "Light \<Rightarrow> Dev \<Rightarrow> (error option \<times> Light) \<times> Dev" where
  "Measure_exp l d =
     (let ((v, err), m) = ReadUint16 cmdReadClear (dev d);
          l = l\<lparr>Int' := v\<rparr>;
          d = d\<lparr>dev := m\<rparr>
      in if err \<noteq> None then ((err, l), d)
         else
           let ((r, err), m) = ReadUint16 cmdReadRed (dev d);
               d = d\<lparr>dev := m\<rparr>
           in if err \<noteq> None then ((err, l), d)
              else
                let ((g, err), m) = ReadUint16 cmdReadGreen (dev d);
                    d = d\<lparr>dev := m\<rparr>
                in if err \<noteq> None then ((err, l), d)
                   else
                     let ((b, err), m) = ReadUint16 cmdReadBlue (dev d);
                         d = d\<lparr>dev := m\<rparr>
                     in if err \<noteq> None then ((err, l), d)
                        else
                          let l = l\<lparr>R := Quo (Float32 r) (Float32 (Int' l))\<rparr>;
                              l = l\<lparr>G := Quo (Float32 g) (Float32 (Int' l))\<rparr>;
                              l = l\<lparr>B := Quo (Float32 b) (Float32 (Int' l))\<rparr>
                          in ((None, l), d))"

subsection \<open>The command-line reader\<close>

text \<open>
  \<^verbatim>\<open>src/experimental/cmd/tcs3472/main.go\<close> imports the package
  \<^verbatim>\<open>periph.io/x/periph/experimental/devices/tcs3472\<close>: its calls are those of tcs3472.go.

  A call either returns or panics.
\<close>

datatype 'a outcome = Returns 'a | Panics

text \<open>
  The \<^verbatim>\<open>for\<close> loop of \<^verbatim>\<open>read\<close> (lines 44-55). With a ticker it ends only when a
  measurement fails, so it runs on fuel, one unit for each pass; \<open>None\<close> is a loop that is
  still polling when the fuel is spent. The third argument is the standard output so
  far: one \<^verbatim>\<open>Light\<close> for each line printed.
\<close>

fun poll :: "nat \<Rightarrow> bool \<Rightarrow> Dev \<Rightarrow> Light list \<Rightarrow> (error option \<times> Dev \<times> Light list) option" where
  "poll 0 ticker d out = None"
| "poll (Suc n) ticker d out =
     (let light = \<lparr>Int' = 0, R = Float32 0, G = Float32 0, B = Float32 0\<rparr>;
          ((err, light), d) = Measure_exp light d
      in if err \<noteq> None then Some (err, d, out)
         else
           let out = out @ [light]
           in if \<not> ticker then Some (None, d, out) else poll n ticker d out)"

text \<open>
  \<^verbatim>\<open>read\<close> (lines 34-57). \<^verbatim>\<open>time.NewTicker\<close> panics on a duration that is not positive,
  and it is called for every interval other than zero.
\<close>

definition read :: "nat \<Rightarrow> Dev \<Rightarrow> Duration \<Rightarrow> Light list \<Rightarrow> (error option outcome \<times> Dev \<times> Light list) option" where
  "read fuel d interval out =
     (if interval \<noteq> 0 \<and> interval \<le>s 0 then Some (Panics, d, out)
      else
        let ticker = (interval \<noteq> 0);
            ((valid, err), d) = Valid d
        in if \<not> valid \<or> err \<noteq> None then Some (Returns err, d, out)
           else
             (case poll fuel ticker d out of
                None \<Rightarrow> None
              | Some (err, d, out) \<Rightarrow> Some (Returns err, d, out)))"

text \<open>
  \<^verbatim>\<open>mainImpl\<close> (lines 59-95). What \<^verbatim>\<open>host.Init\<close> and \<^verbatim>\<open>i2creg.Open\<close> return is given: the
  error of the first, the transport and the error of the second. Flags other than the
  interval, the log and the deferred \<^verbatim>\<open>bus.Close\<close> are left out. The result is the error
  returned, the transport as the run leaves it and the standard output.
\<close>

definition mainImpl :: "nat \<Rightarrow> error option \<Rightarrow> Dev8 \<times> error option \<Rightarrow> Duration \<Rightarrow> (error option outcome \<times> Dev8 \<times> Light list) option" where
  "mainImpl fuel init opened interval =
     (if init \<noteq> None then Some (Returns init, fst opened, [])
      else
        let (bus, err) = opened
        in if err \<noteq> None then Some (Returns err, bus, [])
           else
             let ((handle, err), bus) = New bus
             in if err \<noteq> None then Some (Returns err, bus, [])
                else
                  (case handle of
                     None \<Rightarrow> Some (Panics, bus, [])
                   | Some d \<Rightarrow>
                       (case read fuel d interval [] of
                          None \<Rightarrow> None
                        | Some (Panics, d, out) \<Rightarrow> Some (Panics, dev d, out)
                        | Some (Returns err, d, out) \<Rightarrow>
                            let (err2, d) = Halt_exp d
                            in if err \<noteq> None then Some (Returns err, dev d, out)
                               else Some (Returns err2, dev d, out))))"

text \<open>
  \<^verbatim>\<open>main\<close> (lines 97-102): an error is printed on the standard error and the process
  exits with status 1; without one \<^verbatim>\<open>main\<close> returns and the status is 0.
\<close>

datatype exit = ExitStatus nat | Panicked

record process =
  status :: exit
  stderr :: "error option"
  bus :: Dev8
  stdout :: "Light list"

definition main :: "nat \<Rightarrow> error option \<Rightarrow> Dev8 \<times> error option \<Rightarrow> Duration \<Rightarrow> process option" where
  "main fuel init opened interval =
     (case mainImpl fuel init opened interval of
        None \<Rightarrow> None
      | Some (Panics, b, out) \<Rightarrow> Some \<lparr>status = Panicked, stderr = None, bus = b, stdout = out\<rparr>
      | Some (Returns err, b, out) \<Rightarrow>
          if err \<noteq> None then Some \<lparr>status = ExitStatus 1, stderr = err, bus = b, stdout = out\<rparr>
          else Some \<lparr>status = ExitStatus 0, stderr = None, bus = b, stdout = out\<rparr>)"

subsection \<open>The lifetime of a handle\<close>

text \<open>
  A caller's use of a handle is a list of calls, carried out in order. The results are
  dropped: what is followed is the handle.
\<close>

datatype call =
    CallSetIntegrationTime Duration
  | CallMaxCount
  | CallSetGain Gain
  | CallSetGain_exp Gain
  | CallValid
  | CallMeasureRaw
  | CallMeasure Light
  | CallMeasure_exp Light
  | CallHalt
  | CallHalt_exp

fun exec :: "call \<Rightarrow> Dev \<Rightarrow> Dev" where
  "exec (CallSetIntegrationTime dur) d = snd (SetIntegrationTime dur d)"
| "exec CallMaxCount d = d"
| "exec (CallSetGain g) d = snd (SetGain g d)"
| "exec (CallSetGain_exp g) d = snd (SetGain_exp g d)"
| "exec CallValid d = snd (Valid d)"
| "exec CallMeasureRaw d = snd (MeasureRaw d)"
| "exec (CallMeasure l) d = snd (Measure l d)"
| "exec (CallMeasure_exp l) d = snd (Measure_exp l d)"
| "exec CallHalt d = snd (Halt d)"
| "exec CallHalt_exp d = snd (Halt_exp d)"

definition run :: "call list \<Rightarrow> Dev \<Rightarrow> Dev" where
  "run cs d = fold exec cs d"

text \<open>
  The value of the integration-time register as the transactions tell it: the value of
  the latest write to \<^const>\<open>cmdATime\<close> that the bus accepted, and the value of the latest
  write to it that was made, accepted or not.
\<close>

fun atime_write :: "bool \<Rightarrow> xfer \<Rightarrow> uint8 option" where
  "atime_write any (WrUint8 reg v e) = (if reg = cmdATime \<and> (any \<or> e = None) then Some v else None)"
| "atime_write any (RdUint8 reg v e) = None"
| "atime_write any (RdUint16 reg v e) = None"

fun latest_atime :: "bool \<Rightarrow> xfer list \<Rightarrow> uint8 option" where
  "latest_atime any [] = None"
| "latest_atime any (x # xs) =
     (case latest_atime any xs of
        Some v \<Rightarrow> Some v
      | None \<Rightarrow> atime_write any x)"

definition atime_written :: "xfer list \<Rightarrow> uint8 option" where
  "atime_written h = latest_atime False h"

definition atime_attempted :: "xfer list \<Rightarrow> uint8 option" where
  "atime_attempted h = latest_atime True h"

text \<open>The count that lines 141-144 of part_001 derive from a register value.\<close>

definition derived_count :: "uint8 \<Rightarrow> uint32" where
  "derived_count a = (if 65535 < (ucast a :: uint32) * 1024 then 65535 else ucast a * 1024)"

text \<open>
  The count of the comment at line 136 of part_001 and of the datasheet:
  \<^verbatim>\<open>Max RGBC Count = (256 - ATIME) * 1024 up to a maximum of 65535\<close>, as a number.
\<close>

definition documented_count :: "uint8 \<Rightarrow> int" where
  "documented_count a = min ((256 - uint a) * 1024) 65535"

text \<open>
  The count held by a handle is the one derived from the latest value that was sent to
  the integration-time register.
\<close>

definition tracks_attempt :: "Dev \<Rightarrow> bool" where
  "tracks_attempt d \<longleftrightarrow>
     (\<exists>a. atime_attempted (xfers (dev d)) = Some a \<and> MaxCount d = derived_count a)"

subsection \<open>A measurement that stops at a failed read\<close>

text \<open>
  The calls of \<^const>\<open>MeasureRaw\<close>, \<^const>\<open>Measure\<close> and \<^const>\<open>Measure_exp\<close> on a handle
  stop with an error after the given transactions: all three return the error and leave
  the handle with these transactions added and no other; \<^const>\<open>MeasureRaw\<close> hands back the
  given array next to the error and \<^const>\<open>Measure\<close> hands back the caller's \<^verbatim>\<open>Light\<close> as it
  was. About the \<^verbatim>\<open>Light\<close> that \<^const>\<open>Measure_exp\<close> hands back nothing is said.
\<close>

definition aborts_with :: "Light \<Rightarrow> Dev \<Rightarrow> uint16 list \<Rightarrow> error option \<Rightarrow> xfer list \<Rightarrow> bool" where
  "aborts_with l d vals e reads \<longleftrightarrow>
     MeasureRaw d = ((vals, e), d\<lparr>dev := (dev d)\<lparr>xfers := xfers (dev d) @ reads\<rparr>\<rparr>)
   \<and> Measure l d = ((e, l), d\<lparr>dev := (dev d)\<lparr>xfers := xfers (dev d) @ reads\<rparr>\<rparr>)
   \<and> fst (fst (Measure_exp l d)) = e
   \<and> snd (Measure_exp l d) = d\<lparr>dev := (dev d)\<lparr>xfers := xfers (dev d) @ reads\<rparr>\<rparr>"

subsection \<open>Devices to run the driver against\<close>

text \<open>
  A device that identifies as 0x44, reports a finished integration cycle, counts 1000,
  300, 400 and 300 on the four channels and accepts every write.
\<close>

definition steady_bus :: Dev8 where
  "steady_bus =
     \<lparr>rd8 = (\<lambda>h reg. (if reg = cmdChipID then 0x44 else if reg = cmdStatus then 1 else 0, None)),
      rd16 = (\<lambda>h reg. (if reg = cmdReadClear then 1000 else if reg = cmdReadRed then 300
                        else if reg = cmdReadGreen then 400 else if reg = cmdReadBlue then 300
                        else 0, None)),
      wr8 = (\<lambda>h reg v. None),
      xfers = []\<rparr>"

text \<open>The same device on a bus that refuses every write after the third transaction.\<close>

definition failing_bus :: Dev8 where
  "failing_bus = steady_bus\<lparr>wr8 := (\<lambda>h reg v. if length h < 3 then None else Some (BusError 5))\<rparr>"

text \<open>The same device with one channel register that cannot be read, and with the red one.\<close>

definition channel_fails_bus :: "uint8 \<Rightarrow> Dev8" where
  "channel_fails_bus ch =
     steady_bus\<lparr>rd16 := (\<lambda>h reg. if reg = ch then (0, Some (BusError 7))
                                  else rd16 steady_bus h reg)\<rparr>"

definition red_fails_bus :: Dev8 where
  "red_fails_bus = channel_fails_bus cmdReadRed"

text \<open>The same device while its integration cycle is not finished: only the interrupt bit of the status is set.\<close>

definition busy_bus :: Dev8 where
  "busy_bus =
     steady_bus\<lparr>rd8 := (\<lambda>h reg. (if reg = cmdChipID then 0x44 else if reg = cmdStatus then 0x10 else 0, None))\<rparr>"

section \<open>Properties\<close>

subsection \<open>Arithmetic of the integration time\<close>

lemma duration_consts:
  "2400 * Microsecond = (2400000 :: 64 word)"
  "612 * Millisecond = (612000000 :: 64 word)"
  "511 * Millisecond = (511000000 :: 64 word)"
  by (simp_all add: Microsecond_def Millisecond_def)

lemma in_range_sint:
  assumes "2400 * Microsecond \<le>s dur" and "dur \<le>s 612 * Millisecond"
  shows "2400000 \<le> sint dur" and "sint dur \<le> 612000000"
  using assms by (simp_all add: duration_consts word_sle_eq)

lemma in_range_guard:
  "(dur <s 2400 * Microsecond \<or> 612 * Millisecond <s dur) \<longleftrightarrow>
     \<not> (2400 * Microsecond \<le>s dur \<and> dur \<le>s 612 * Millisecond)"
  by (auto simp add: word_sle_eq word_sless_alt)

lemma int64_quo_in_range:
  assumes "2400000 \<le> sint dur" and "sint dur \<le> 612000000"
  shows "int64_quo dur 2400000 = word_of_int (sint dur div 2400000)"
  using assms by (simp add: int64_quo_def signed_divide_int_def sgn_if)

lemma quotient_bounds:
  assumes "2400000 \<le> (k::int)" and "k \<le> 612000000"
  shows "1 \<le> k div 2400000" and "k div 2400000 \<le> 255"
  using assms by auto

lemma ucast_small:
  assumes "0 \<le> (q::int)" and "q \<le> 255"
  shows "(ucast (word_of_int q :: 64 word) :: uint8) = word_of_int q"
proof -
  have "uint (word_of_int q :: 64 word) = q"
    using assms by (simp add: uint_word_of_int take_bit_int_eq_self)
  then show ?thesis
    by (simp add: ucast_eq)
qed

lemma uint_word_of_int_byte:
  assumes "0 \<le> (k::int)" and "k < 256"
  shows "uint (word_of_int k :: uint8) = k"
  using assms by (simp add: uint_word_of_int take_bit_int_eq_self)

lemma atime_in_range:
  assumes "2400 * Microsecond \<le>s dur" and "dur \<le>s 612 * Millisecond"
  shows "255 - (ucast (int64_quo dur 2400000) :: uint8) = word_of_int (255 - sint dur div 2400000)"
proof -
  let ?q = "sint dur div 2400000"
  have q: "1 \<le> ?q" "?q \<le> 255"
    using in_range_sint [OF assms] by (rule quotient_bounds)+
  have "int64_quo dur 2400000 = word_of_int ?q"
    using in_range_sint [OF assms] by (rule int64_quo_in_range)
  moreover have "(ucast (word_of_int ?q :: 64 word) :: uint8) = word_of_int ?q"
    using q by (intro ucast_small) simp_all
  ultimately show ?thesis
    by simp
qed

lemma uint_atime_in_range:
  assumes "2400 * Microsecond \<le>s dur" and "dur \<le>s 612 * Millisecond"
  shows "uint (word_of_int (255 - sint dur div 2400000) :: uint8) = 255 - sint dur div 2400000"
proof -
  have "1 \<le> sint dur div 2400000" "sint dur div 2400000 \<le> 255"
    using in_range_sint [OF assms] by (rule quotient_bounds)+
  then show ?thesis
    by (intro uint_word_of_int_byte) simp_all
qed

lemma uint_ucast_times_1024:
  "uint ((ucast (a::uint8) :: uint32) * 1024) = uint a * 1024"
proof -
  have "uint a < 256"
    using uint_bounded [of a] by simp
  then have "uint a * 1024 < 2 ^ 32"
    by simp
  then show ?thesis
    by (simp add: uint_mult_lem [THEN iffD1] uint_up_ucast is_up)
qed

lemma uint_derived_count:
  "uint (derived_count a) = min (uint a * 1024) 65535"
proof (cases "65535 < (ucast a :: uint32) * 1024")
  case True
  then have "65535 < uint a * 1024"
    by (simp add: word_less_def uint_ucast_times_1024)
  with True show ?thesis
    by (simp add: derived_count_def)
next
  case False
  then have "uint a * 1024 \<le> 65535"
    by (simp add: word_less_def uint_ucast_times_1024)
  with False show ?thesis
    by (simp add: derived_count_def uint_ucast_times_1024)
qed

subsection \<open>What a call of SetIntegrationTime does\<close>

lemma SetIntegrationTime_writes:
  assumes "2400 * Microsecond \<le>s dur" and "dur \<le>s 612 * Millisecond"
  shows "SetIntegrationTime dur d =
     (let a = word_of_int (255 - sint dur div 2400000);
          e = wr8 (dev d) (xfers (dev d)) cmdATime a
      in (e, \<lparr>dev = (dev d)\<lparr>xfers := xfers (dev d) @ [WrUint8 cmdATime a e]\<rparr>,
              maxCount = derived_count a\<rparr>))"
proof -
  have guard: "\<not> (dur <s 2400 * Microsecond \<or> 612 * Millisecond <s dur)"
    using assms by (simp add: in_range_guard)
  show ?thesis
    unfolding SetIntegrationTime_def
    by (simp only: guard if_False atime_in_range [OF assms])
       (simp add: Let_def WriteUint8_def derived_count_def)
qed

lemma SetIntegrationTime_refuses:
  assumes "dur <s 2400 * Microsecond \<or> 612 * Millisecond <s dur"
  shows "SetIntegrationTime dur d = (Some IntegrationTimeRange, d)"
  using assms by (simp add: SetIntegrationTime_def)

subsection \<open>Claims about the integration time\<close>

lemma in_range_sle:
  assumes "2400000 \<le> sint dur" and "sint dur \<le> 612000000"
  shows "2400 * Microsecond \<le>s dur" and "dur \<le>s 612 * Millisecond"
  using assms by (simp_all add: duration_consts word_sle_eq)

lemma out_of_range_sless:
  assumes "sint dur < 2400000 \<or> 612000000 < sint dur"
  shows "dur <s 2400 * Microsecond \<or> 612 * Millisecond <s dur"
  using assms by (simp add: duration_consts word_sless_alt)

text \<open>
  C1. For every duration from 2.4 ms to 612 ms, \<^verbatim>\<open>SetIntegrationTime\<close> makes one
  transaction, the write of \<open>atime = 255 - (nanoseconds div 2400000)\<close> to the ATIME
  register, returns what the bus answers to it, so it succeeds when the bus accepts the
  write, and leaves \<open>min (atime * 1024) 65535\<close> in \<^verbatim>\<open>maxCount\<close>. The witness runs it at
  612 ms (atime 0, count 0) and at 2.4 ms (atime 254, count 65535).
\<close>

theorem SetIntegrationTime_in_range:
  fixes dur :: Duration and d :: Dev
  assumes "2400000 \<le> sint dur" and "sint dur \<le> 612000000"
  defines "atime \<equiv> word_of_int (255 - sint dur div 2400000) :: uint8"
  defines "reply \<equiv> wr8 (dev d) (xfers (dev d)) cmdATime atime"
  shows "uint atime = 255 - sint dur div 2400000
       \<and> fst (SetIntegrationTime dur d) = reply
       \<and> (reply = None \<longrightarrow> fst (SetIntegrationTime dur d) = None)
       \<and> xfers (dev (snd (SetIntegrationTime dur d))) = xfers (dev d) @ [WrUint8 cmdATime atime reply]
       \<and> uint (MaxCount (snd (SetIntegrationTime dur d))) = min (uint atime * 1024) 65535"
proof -
  note r = in_range_sle [OF assms(1,2)]
  have "uint atime = 255 - sint dur div 2400000"
    unfolding atime_def using r by (rule uint_atime_in_range)
  moreover have "SetIntegrationTime dur d =
      (reply, \<lparr>dev = (dev d)\<lparr>xfers := xfers (dev d) @ [WrUint8 cmdATime atime reply]\<rparr>,
               maxCount = derived_count atime\<rparr>)"
    unfolding atime_def reply_def
    using SetIntegrationTime_writes [OF r, of d] by (simp add: Let_def)
  ultimately show ?thesis
    by (simp add: MaxCount_def uint_derived_count)
qed

theorem SetIntegrationTime_in_range_witness:
  "2400000 \<le> sint (612 * Millisecond) \<and> sint (612 * Millisecond) \<le> 612000000
   \<and> 2400000 \<le> sint (2400 * Microsecond) \<and> sint (2400 * Microsecond) \<le> 612000000
   \<and> SetIntegrationTime (612 * Millisecond) \<lparr>dev = steady_bus, maxCount = 7\<rparr>
       = (None, \<lparr>dev = steady_bus\<lparr>xfers := [WrUint8 0x81 0 None]\<rparr>, maxCount = 0\<rparr>)
   \<and> SetIntegrationTime (2400 * Microsecond) \<lparr>dev = steady_bus, maxCount = 7\<rparr>
       = (None, \<lparr>dev = steady_bus\<lparr>xfers := [WrUint8 0x81 254 None]\<rparr>, maxCount = 65535\<rparr>)"
proof -
  have r: "2400000 \<le> sint (612 * Millisecond)" "sint (612 * Millisecond) \<le> 612000000"
     "2400000 \<le> sint (2400 * Microsecond)" "sint (2400 * Microsecond) \<le> 612000000"
    by (simp_all add: Microsecond_def Millisecond_def)
  show ?thesis
    using r SetIntegrationTime_in_range [OF r(1,2), of "\<lparr>dev = steady_bus, maxCount = 7\<rparr>"]
      SetIntegrationTime_in_range [OF r(3,4), of "\<lparr>dev = steady_bus, maxCount = 7\<rparr>"]
    by (simp add: SetIntegrationTime_def Let_def WriteUint8_def steady_bus_def cmdATime_def regCmd_def
        int64_quo_def signed_divide_int_def Microsecond_def Millisecond_def)
qed

text \<open>
  C2. The count stored is not the \<open>(256 - ATIME) * 1024\<close>, capped at 65535, of the comment
  in \<^verbatim>\<open>SetIntegrationTime\<close>. At 612 ms the register is written with 0 and the count
  stored is 0, where the comment gives 65535; at 2.4 ms the register is written with 254
  and the count stored is 65535, where the comment gives 2048.
\<close>

theorem SetIntegrationTime_count_against_comment:
  "xfers (dev (snd (SetIntegrationTime (612 * Millisecond) \<lparr>dev = steady_bus, maxCount = 7\<rparr>)))
     = [WrUint8 cmdATime 0 None]
   \<and> uint (MaxCount (snd (SetIntegrationTime (612 * Millisecond) \<lparr>dev = steady_bus, maxCount = 7\<rparr>))) = 0
   \<and> documented_count 0 = 65535
   \<and> xfers (dev (snd (SetIntegrationTime (2400 * Microsecond) \<lparr>dev = steady_bus, maxCount = 7\<rparr>)))
     = [WrUint8 cmdATime 254 None]
   \<and> uint (MaxCount (snd (SetIntegrationTime (2400 * Microsecond) \<lparr>dev = steady_bus, maxCount = 7\<rparr>))) = 65535
   \<and> documented_count 254 = 2048"
  by (simp add: SetIntegrationTime_def Let_def WriteUint8_def steady_bus_def MaxCount_def
      documented_count_def int64_quo_def signed_divide_int_def Microsecond_def Millisecond_def)

text \<open>
  C3. When the bus refuses the write to the ATIME register with an error,
  \<^verbatim>\<open>SetIntegrationTime\<close> returns that error, and \<^verbatim>\<open>maxCount\<close> holds the count derived from
  the new duration, whatever it held before. In the witness a handle with a count of
  44032 is left with 0.
\<close>

theorem SetIntegrationTime_write_refused:
  fixes dur :: Duration and d :: Dev
  assumes "2400000 \<le> sint dur" and "sint dur \<le> 612000000"
    and "wr8 (dev d) (xfers (dev d)) cmdATime (word_of_int (255 - sint dur div 2400000)) = Some e"
  shows "fst (SetIntegrationTime dur d) = Some e
       \<and> uint (MaxCount (snd (SetIntegrationTime dur d))) = min ((255 - sint dur div 2400000) * 1024) 65535"
proof -
  note r = in_range_sle [OF assms(1,2)]
  show ?thesis
    using SetIntegrationTime_writes [OF r, of d] assms(3) uint_atime_in_range [OF r]
    by (simp add: Let_def MaxCount_def uint_derived_count)
qed

theorem SetIntegrationTime_write_refused_witness:
  "2400000 \<le> sint (612 * Millisecond) \<and> sint (612 * Millisecond) \<le> 612000000
   \<and> wr8 failing_bus [RdUint8 0x92 0x44 None, WrUint8 0x80 3 None, WrUint8 0x81 43 None] cmdATime
        (word_of_int (255 - sint (612 * Millisecond :: Duration) div 2400000)) = Some (BusError 5)
   \<and> fst (SetIntegrationTime (612 * Millisecond)
        \<lparr>dev = failing_bus\<lparr>xfers := [RdUint8 0x92 0x44 None, WrUint8 0x80 3 None, WrUint8 0x81 43 None]\<rparr>,
         maxCount = 44032\<rparr>) = Some (BusError 5)
   \<and> MaxCount (snd (SetIntegrationTime (612 * Millisecond)
        \<lparr>dev = failing_bus\<lparr>xfers := [RdUint8 0x92 0x44 None, WrUint8 0x80 3 None, WrUint8 0x81 43 None]\<rparr>,
         maxCount = 44032\<rparr>)) = 0"
proof -
  let ?d = "\<lparr>dev = failing_bus\<lparr>xfers := [RdUint8 0x92 0x44 None, WrUint8 0x80 3 None, WrUint8 0x81 43 None]\<rparr>,
         maxCount = 44032\<rparr>"
  have r: "2400000 \<le> sint (612 * Millisecond)" "sint (612 * Millisecond) \<le> 612000000"
    by (simp_all add: Microsecond_def Millisecond_def)
  have w: "wr8 (dev ?d) (xfers (dev ?d)) cmdATime
        (word_of_int (255 - sint (612 * Millisecond :: Duration) div 2400000)) = Some (BusError 5)"
    by (simp add: failing_bus_def steady_bus_def)
  show ?thesis
    using r w SetIntegrationTime_write_refused [OF r w]
    by (simp add: failing_bus_def steady_bus_def Microsecond_def Millisecond_def word_eq_iff_unsigned [where ?'a = int])
qed

text \<open>
  C5. For every duration below 2.4 ms or above 612 ms, \<^verbatim>\<open>SetIntegrationTime\<close> returns the
  range error and the handle is as it was: no transaction is added and \<^verbatim>\<open>maxCount\<close> is
  unchanged. The witness runs it at 0 and at one second.
\<close>

theorem SetIntegrationTime_out_of_range:
  fixes dur :: Duration and d :: Dev
  assumes "sint dur < 2400000 \<or> 612000000 < sint dur"
  shows "SetIntegrationTime dur d = (Some IntegrationTimeRange, d)
       \<and> xfers (dev (snd (SetIntegrationTime dur d))) = xfers (dev d)
       \<and> MaxCount (snd (SetIntegrationTime dur d)) = MaxCount d"
  using SetIntegrationTime_refuses [OF out_of_range_sless [OF assms], of d] by simp

theorem SetIntegrationTime_out_of_range_witness:
  "(sint (0 :: Duration) < 2400000 \<or> 612000000 < sint (0 :: Duration))
   \<and> SetIntegrationTime 0 \<lparr>dev = steady_bus, maxCount = 44032\<rparr>
       = (Some IntegrationTimeRange, \<lparr>dev = steady_bus, maxCount = 44032\<rparr>)
   \<and> (sint (1000 * Millisecond) < 2400000 \<or> 612000000 < sint (1000 * Millisecond))
   \<and> SetIntegrationTime (1000 * Millisecond) \<lparr>dev = steady_bus, maxCount = 44032\<rparr>
       = (Some IntegrationTimeRange, \<lparr>dev = steady_bus, maxCount = 44032\<rparr>)"
proof -
  have r: "sint (0 :: Duration) < 2400000 \<or> 612000000 < sint (0 :: Duration)"
    "sint (1000 * Millisecond) < 2400000 \<or> 612000000 < sint (1000 * Millisecond)"
    by (simp_all add: Microsecond_def Millisecond_def)
  show ?thesis
    using r SetIntegrationTime_out_of_range [OF r(1), of "\<lparr>dev = steady_bus, maxCount = 44032\<rparr>"]
      SetIntegrationTime_out_of_range [OF r(2), of "\<lparr>dev = steady_bus, maxCount = 44032\<rparr>"]
    by simp
qed

subsection \<open>Register addresses and the default integration time\<close>

lemma regs:
  "cmdEnable = 0x80" "cmdATime = 0x81" "cmdGain = 0x8F" "cmdChipID = 0x92" "cmdStatus = 0x93"
  "cmdReadClear = 0xB4" "cmdReadRed = 0xB6" "cmdReadGreen = 0xB8" "cmdReadBlue = 0xBA"
  by (simp_all add: cmdEnable_def cmdATime_def cmdGain_def cmdChipID_def cmdStatus_def
      cmdReadClear_def cmdReadRed_def cmdReadGreen_def cmdReadBlue_def regCmd_def cmdAutoIncrement_def)

lemma enable_bits: "enablePower OR enableRGBC = 3"
  by (simp add: enablePower_def enableRGBC_def)

lemma SetIntegrationTime_511:
  "SetIntegrationTime (511 * Millisecond) d =
     (wr8 (dev d) (xfers (dev d)) 0x81 43,
      \<lparr>dev = (dev d)\<lparr>xfers := xfers (dev d) @ [WrUint8 0x81 43 (wr8 (dev d) (xfers (dev d)) 0x81 43)]\<rparr>,
       maxCount = 44032\<rparr>)"
  by (simp add: SetIntegrationTime_def WriteUint8_def Let_def regs
      int64_quo_def signed_divide_int_def Microsecond_def Millisecond_def)

lemma New_steady_bus:
  "New steady_bus =
     ((Some \<lparr>dev = steady_bus\<lparr>xfers := [RdUint8 0x92 0x44 None, WrUint8 0x80 3 None, WrUint8 0x81 43 None]\<rparr>,
             maxCount = 44032\<rparr>, None),
      steady_bus\<lparr>xfers := [RdUint8 0x92 0x44 None, WrUint8 0x80 3 None, WrUint8 0x81 43 None]\<rparr>)"
  by (simp add: New_def SetIntegrationTime_511 ReadUint8_def WriteUint8_def Let_def steady_bus_def
      regs enable_bits chipID_def)

subsection \<open>Opening a handle\<close>

lemma New_read_failed:
  assumes "snd (rd8 b (xfers b) cmdChipID) = Some e"
  shows "New b = ((None, Some e),
                  b\<lparr>xfers := xfers b @ [RdUint8 cmdChipID (fst (rd8 b (xfers b) cmdChipID)) (Some e)]\<rparr>)"
  using assms by (simp add: New_def ReadUint8_def Let_def split_def)

lemma New_wrong_id:
  assumes "snd (rd8 b (xfers b) cmdChipID) = None"
    and "fst (rd8 b (xfers b) cmdChipID) \<noteq> chipID" and "fst (rd8 b (xfers b) cmdChipID) \<noteq> chipIDAlt"
  shows "New b = ((None, Some (UnexpectedChipID (fst (rd8 b (xfers b) cmdChipID)))),
                  b\<lparr>xfers := xfers b @ [RdUint8 cmdChipID (fst (rd8 b (xfers b) cmdChipID)) None]\<rparr>)"
  using assms by (simp add: New_def ReadUint8_def Let_def split_def)

lemma New_handle_iff: "fst (fst (New b)) = None \<longleftrightarrow> snd (fst (New b)) \<noteq> None"
  by (simp add: New_def Let_def split_def)

lemma New_success_id:
  assumes "fst (fst (New b)) \<noteq> None"
  shows "snd (rd8 b (xfers b) cmdChipID) = None
       \<and> (fst (rd8 b (xfers b) cmdChipID) = chipID \<or> fst (rd8 b (xfers b) cmdChipID) = chipIDAlt)"
proof (rule ccontr)
  assume neg: "\<not> ?thesis"
  show False
  proof (cases "snd (rd8 b (xfers b) cmdChipID)")
    case (Some e)
    then have "fst (fst (New b)) = None"
      by (simp add: New_read_failed)
    with assms show False by simp
  next
    case None
    with neg have "fst (rd8 b (xfers b) cmdChipID) \<noteq> chipID"
      and "fst (rd8 b (xfers b) cmdChipID) \<noteq> chipIDAlt"
      by simp_all
    with None have "fst (fst (New b)) = None"
      by (simp add: New_wrong_id)
    with assms show False by simp
  qed
qed

text \<open>
  C6. \<^verbatim>\<open>New\<close> reads the chip identifier from register 0x92. It returns a handle only when
  that read gave 0x44 or 0x4D without an error. For every other byte read without an
  error it returns the error that carries the byte, after that one transaction, and no
  handle; a handle is returned exactly when no error is.
\<close>

theorem New_checks_chip_id:
  fixes b :: Dev8
  defines "ident \<equiv> fst (rd8 b (xfers b) cmdChipID)"
  defines "err \<equiv> snd (rd8 b (xfers b) cmdChipID)"
  shows "cmdChipID = 0x92
       \<and> (fst (fst (New b)) \<noteq> None \<longrightarrow> err = None \<and> (ident = 0x44 \<or> ident = 0x4D))
       \<and> (err = None \<and> ident \<noteq> 0x44 \<and> ident \<noteq> 0x4D \<longrightarrow>
            fst (New b) = (None, Some (UnexpectedChipID ident))
            \<and> xfers (snd (New b)) = xfers b @ [RdUint8 cmdChipID ident None])
       \<and> (fst (fst (New b)) = None \<longleftrightarrow> snd (fst (New b)) \<noteq> None)"
proof -
  have "cmdChipID = 0x92"
    by (simp add: cmdChipID_def regCmd_def)
  moreover have "fst (fst (New b)) \<noteq> None \<longrightarrow> err = None \<and> (ident = 0x44 \<or> ident = 0x4D)"
    unfolding ident_def err_def using New_success_id [of b] by (simp add: chipID_def chipIDAlt_def)
  moreover have "err = None \<and> ident \<noteq> 0x44 \<and> ident \<noteq> 0x4D \<longrightarrow>
            fst (New b) = (None, Some (UnexpectedChipID ident))
            \<and> xfers (snd (New b)) = xfers b @ [RdUint8 cmdChipID ident None]"
    unfolding ident_def err_def using New_wrong_id [of b] by (simp add: chipID_def chipIDAlt_def)
  ultimately show ?thesis
    using New_handle_iff [of b] by blast
qed

theorem New_checks_chip_id_witness:
  "fst (fst (New steady_bus)) \<noteq> None
   \<and> rd8 steady_bus (xfers steady_bus) cmdChipID = (0x44, None)
   \<and> rd8 (steady_bus\<lparr>rd8 := \<lambda>h reg. (0, None)\<rparr>) [] cmdChipID = (0, None)
   \<and> fst (New (steady_bus\<lparr>rd8 := \<lambda>h reg. (0, None)\<rparr>)) = (None, Some (UnexpectedChipID 0))
   \<and> xfers (snd (New (steady_bus\<lparr>rd8 := \<lambda>h reg. (0, None)\<rparr>))) = [RdUint8 0x92 0 None]"
proof -
  let ?bad = "steady_bus\<lparr>rd8 := \<lambda>h reg. (0, None)\<rparr>"
  have good: "fst (fst (New steady_bus)) \<noteq> None"
    by (simp add: New_steady_bus)
  have id_good: "rd8 steady_bus (xfers steady_bus) cmdChipID = (0x44, None)"
    by (simp add: steady_bus_def)
  have h: "xfers ?bad = []"
    by (simp add: steady_bus_def)
  have id_bad: "rd8 ?bad [] cmdChipID = (0, None)"
    by simp
  have "fst (New ?bad) = (None, Some (UnexpectedChipID (fst (rd8 ?bad (xfers ?bad) cmdChipID))))
      \<and> xfers (snd (New ?bad)) = xfers ?bad @ [RdUint8 cmdChipID (fst (rd8 ?bad (xfers ?bad) cmdChipID)) None]"
    using New_checks_chip_id [of ?bad] by simp
  then have "fst (New ?bad) = (None, Some (UnexpectedChipID 0))
      \<and> xfers (snd (New ?bad)) = [RdUint8 0x92 0 None]"
    by (simp add: h regs)
  moreover have "snd (rd8 steady_bus (xfers steady_bus) cmdChipID) = None"
    using New_checks_chip_id [of steady_bus] good by blast
  ultimately show ?thesis
    using good id_good id_bad by blast
qed

subsection \<open>Claims about measurements\<close>

lemma slots: "ClearVal = 0" "RedVal = 1" "GreenVal = 2" "BlueVal = 3"
  by (simp_all add: ClearVal_def RedVal_def GreenVal_def BlueVal_def)

lemma four_zeros: "replicate 4 (0::uint16) = [0, 0, 0, 0]"
  by (simp add: numeral_eq_Suc)

text \<open>
  C8, as amended. In every run of \<^verbatim>\<open>MeasureRaw\<close> or \<^verbatim>\<open>Measure\<close> in which a channel read fails,
  be it the clear, the red, the green or the blue one after the reads before it went
  well, the call returns the error of that read and the transactions made are the reads
  up to that one: no later channel is read. \<^verbatim>\<open>Measure\<close> of part_001 leaves the caller's
  \<^verbatim>\<open>Light\<close> as it was. \<^verbatim>\<open>MeasureRaw\<close> returns, next to the error, the array with the
  values read so far, that of the failed read included, and zero for the channels not
  reached.
\<close>

theorem Measure_stops_at_failed_read:
  fixes d :: Dev and l :: Light
  defines "c \<equiv> rd16 (dev d) (xfers (dev d)) cmdReadClear"
  defines "cs \<equiv> [RdUint16 cmdReadClear (fst c) (snd c)]"
  defines "r \<equiv> rd16 (dev d) (xfers (dev d) @ cs) cmdReadRed"
  defines "rs \<equiv> cs @ [RdUint16 cmdReadRed (fst r) (snd r)]"
  defines "g \<equiv> rd16 (dev d) (xfers (dev d) @ rs) cmdReadGreen"
  defines "gs \<equiv> rs @ [RdUint16 cmdReadGreen (fst g) (snd g)]"
  defines "b \<equiv> rd16 (dev d) (xfers (dev d) @ gs) cmdReadBlue"
  defines "bs \<equiv> gs @ [RdUint16 cmdReadBlue (fst b) (snd b)]"
  shows "(snd c \<noteq> None \<longrightarrow> aborts_with l d [fst c, 0, 0, 0] (snd c) cs)
       \<and> (snd c = None \<and> snd r \<noteq> None \<longrightarrow> aborts_with l d [fst c, fst r, 0, 0] (snd r) rs)
       \<and> (snd c = None \<and> snd r = None \<and> snd g \<noteq> None \<longrightarrow>
            aborts_with l d [fst c, fst r, fst g, 0] (snd g) gs)
       \<and> (snd c = None \<and> snd r = None \<and> snd g = None \<and> snd b \<noteq> None \<longrightarrow>
            aborts_with l d [fst c, fst r, fst g, fst b] (snd b) bs)"
proof (intro conjI impI)
  assume "snd c \<noteq> None"
  then show "aborts_with l d [fst c, 0, 0, 0] (snd c) cs"
    unfolding aborts_with_def c_def cs_def
    by (clarsimp simp add: MeasureRaw_def Measure_def Measure_exp_def ReadUint16_def Let_def split_def slots four_zeros)
next
  assume "snd c = None \<and> snd r \<noteq> None"
  then show "aborts_with l d [fst c, fst r, 0, 0] (snd r) rs"
    unfolding aborts_with_def c_def cs_def r_def rs_def
    by (clarsimp simp add: MeasureRaw_def Measure_def Measure_exp_def ReadUint16_def Let_def split_def slots four_zeros)
next
  assume "snd c = None \<and> snd r = None \<and> snd g \<noteq> None"
  then show "aborts_with l d [fst c, fst r, fst g, 0] (snd g) gs"
    unfolding aborts_with_def c_def cs_def r_def rs_def g_def gs_def
    by (clarsimp simp add: MeasureRaw_def Measure_def Measure_exp_def ReadUint16_def Let_def split_def slots four_zeros)
next
  assume "snd c = None \<and> snd r = None \<and> snd g = None \<and> snd b \<noteq> None"
  then show "aborts_with l d [fst c, fst r, fst g, fst b] (snd b) bs"
    unfolding aborts_with_def c_def cs_def r_def rs_def g_def gs_def b_def bs_def
    by (clarsimp simp add: MeasureRaw_def Measure_def Measure_exp_def ReadUint16_def Let_def split_def slots four_zeros)
qed


lemma channel_fails_bus_reads:
  "xfers (channel_fails_bus ch) = []"
  "rd16 (channel_fails_bus ch) h reg =
     (if reg = ch then (0, Some (BusError 7))
      else (if reg = 0xB4 then 1000 else if reg = 0xB6 then 300 else if reg = 0xB8 then 400
            else if reg = 0xBA then 300 else 0, None))"
  by (simp_all add: channel_fails_bus_def steady_bus_def regs)

lemma red_fails_bus_reads:
  "xfers red_fails_bus = []"
  "rd16 red_fails_bus h cmdReadClear = (1000, None)"
  "rd16 red_fails_bus h cmdReadRed = (0, Some (BusError 7))"
  by (simp_all add: red_fails_bus_def channel_fails_bus_reads regs)

theorem Measure_stops_at_failed_read_witness:
  "snd (rd16 (channel_fails_bus cmdReadClear) [] cmdReadClear) \<noteq> None
   \<and> aborts_with \<lparr>Int' = 7, R = Float32 0, G = Float32 0, B = Float32 0\<rparr>
        \<lparr>dev = channel_fails_bus cmdReadClear, maxCount = 44032\<rparr> [0, 0, 0, 0] (Some (BusError 7))
        [RdUint16 0xB4 0 (Some (BusError 7))]
   \<and> snd (rd16 red_fails_bus [] cmdReadClear) = None
   \<and> snd (rd16 red_fails_bus [RdUint16 cmdReadClear 1000 None] cmdReadRed) \<noteq> None
   \<and> aborts_with \<lparr>Int' = 7, R = Float32 0, G = Float32 0, B = Float32 0\<rparr>
        \<lparr>dev = red_fails_bus, maxCount = 44032\<rparr> [1000, 0, 0, 0] (Some (BusError 7))
        [RdUint16 0xB4 1000 None, RdUint16 0xB6 0 (Some (BusError 7))]
   \<and> aborts_with \<lparr>Int' = 7, R = Float32 0, G = Float32 0, B = Float32 0\<rparr>
        \<lparr>dev = channel_fails_bus cmdReadGreen, maxCount = 44032\<rparr> [1000, 300, 0, 0] (Some (BusError 7))
        [RdUint16 0xB4 1000 None, RdUint16 0xB6 300 None, RdUint16 0xB8 0 (Some (BusError 7))]
   \<and> aborts_with \<lparr>Int' = 7, R = Float32 0, G = Float32 0, B = Float32 0\<rparr>
        \<lparr>dev = channel_fails_bus cmdReadBlue, maxCount = 44032\<rparr> [1000, 300, 400, 0] (Some (BusError 7))
        [RdUint16 0xB4 1000 None, RdUint16 0xB6 300 None, RdUint16 0xB8 400 None,
         RdUint16 0xBA 0 (Some (BusError 7))]"
  using
    Measure_stops_at_failed_read [of "\<lparr>dev = channel_fails_bus cmdReadClear, maxCount = 44032\<rparr>"
      "\<lparr>Int' = 7, R = Float32 0, G = Float32 0, B = Float32 0\<rparr>"]
    Measure_stops_at_failed_read [of "\<lparr>dev = red_fails_bus, maxCount = 44032\<rparr>"
      "\<lparr>Int' = 7, R = Float32 0, G = Float32 0, B = Float32 0\<rparr>"]
    Measure_stops_at_failed_read [of "\<lparr>dev = channel_fails_bus cmdReadGreen, maxCount = 44032\<rparr>"
      "\<lparr>Int' = 7, R = Float32 0, G = Float32 0, B = Float32 0\<rparr>"]
    Measure_stops_at_failed_read [of "\<lparr>dev = channel_fails_bus cmdReadBlue, maxCount = 44032\<rparr>"
      "\<lparr>Int' = 7, R = Float32 0, G = Float32 0, B = Float32 0\<rparr>"]
  by (simp add: red_fails_bus_def channel_fails_bus_reads regs)

text \<open>
  C8, as stated, fails where a partial result is handed back. With a clear count of 1000
  and a red read that fails, \<^verbatim>\<open>MeasureRaw\<close> returns the array 1000, 0, 0, 0 next to the
  error, and \<^verbatim>\<open>Measure\<close> of tcs3472.go returns the error with the caller's \<^verbatim>\<open>Int\<close> changed
  from 7 to 1000.
\<close>

theorem Measure_partial_result_counterexample:
  "fst (MeasureRaw \<lparr>dev = red_fails_bus, maxCount = 44032\<rparr>) = ([1000, 0, 0, 0], Some (BusError 7))
   \<and> fst (fst (MeasureRaw \<lparr>dev = red_fails_bus, maxCount = 44032\<rparr>)) \<noteq> replicate 4 0
   \<and> fst (Measure_exp \<lparr>Int' = 7, R = Float32 0, G = Float32 0, B = Float32 0\<rparr>
             \<lparr>dev = red_fails_bus, maxCount = 44032\<rparr>)
       = (Some (BusError 7), \<lparr>Int' = 1000, R = Float32 0, G = Float32 0, B = Float32 0\<rparr>)
   \<and> snd (fst (Measure_exp \<lparr>Int' = 7, R = Float32 0, G = Float32 0, B = Float32 0\<rparr>
                  \<lparr>dev = red_fails_bus, maxCount = 44032\<rparr>))
       \<noteq> \<lparr>Int' = 7, R = Float32 0, G = Float32 0, B = Float32 0\<rparr>"
  by (simp add: MeasureRaw_def Measure_exp_def ReadUint16_def Let_def split_def slots four_zeros
      red_fails_bus_reads)

text \<open>
  When the four reads go well, \<^verbatim>\<open>MeasureRaw\<close> returns the four counts in the order clear,
  red, green, blue, read in that order, and both versions of \<^verbatim>\<open>Measure\<close> store the clear
  count in \<^verbatim>\<open>Int\<close> and the three quotients by it in \<^verbatim>\<open>R\<close>, \<^verbatim>\<open>G\<close> and \<^verbatim>\<open>B\<close>. What the
  quotients are as numbers is outside this model.
\<close>

lemma Measure_all_reads:
  fixes d :: Dev and l :: Light
  defines "c \<equiv> rd16 (dev d) (xfers (dev d)) cmdReadClear"
  defines "cs \<equiv> [RdUint16 cmdReadClear (fst c) None]"
  defines "r \<equiv> rd16 (dev d) (xfers (dev d) @ cs) cmdReadRed"
  defines "rs \<equiv> cs @ [RdUint16 cmdReadRed (fst r) None]"
  defines "g \<equiv> rd16 (dev d) (xfers (dev d) @ rs) cmdReadGreen"
  defines "gs \<equiv> rs @ [RdUint16 cmdReadGreen (fst g) None]"
  defines "b \<equiv> rd16 (dev d) (xfers (dev d) @ gs) cmdReadBlue"
  defines "bs \<equiv> gs @ [RdUint16 cmdReadBlue (fst b) None]"
  defines "light \<equiv> \<lparr>Int' = fst c, R = Quo (Float32 (fst r)) (Float32 (fst c)),
                      G = Quo (Float32 (fst g)) (Float32 (fst c)),
                      B = Quo (Float32 (fst b)) (Float32 (fst c))\<rparr>"
  assumes "snd c = None" and "snd r = None" and "snd g = None" and "snd b = None"
  shows "MeasureRaw d = (([fst c, fst r, fst g, fst b], None), d\<lparr>dev := (dev d)\<lparr>xfers := xfers (dev d) @ bs\<rparr>\<rparr>)"
    and "Measure l d = ((None, light), d\<lparr>dev := (dev d)\<lparr>xfers := xfers (dev d) @ bs\<rparr>\<rparr>)"
    and "Measure_exp l d = ((None, light), d\<lparr>dev := (dev d)\<lparr>xfers := xfers (dev d) @ bs\<rparr>\<rparr>)"
proof -
  show raw: "MeasureRaw d = (([fst c, fst r, fst g, fst b], None), d\<lparr>dev := (dev d)\<lparr>xfers := xfers (dev d) @ bs\<rparr>\<rparr>)"
    using assms(10-13) unfolding c_def cs_def r_def rs_def g_def gs_def b_def bs_def
    by (clarsimp simp add: MeasureRaw_def ReadUint16_def Let_def split_def slots four_zeros)
  show "Measure l d = ((None, light), d\<lparr>dev := (dev d)\<lparr>xfers := xfers (dev d) @ bs\<rparr>\<rparr>)"
    unfolding Measure_def raw light_def
    by (simp add: Let_def slots)
  show "Measure_exp l d = ((None, light), d\<lparr>dev := (dev d)\<lparr>xfers := xfers (dev d) @ bs\<rparr>\<rparr>)"
    using assms(10-13) unfolding c_def cs_def r_def rs_def g_def gs_def b_def bs_def light_def
    by (clarsimp simp add: Measure_exp_def ReadUint16_def Let_def split_def)
qed

subsection \<open>Halting\<close>

text \<open>
  \<^verbatim>\<open>Halt\<close> of part_001 makes one transaction, the write of zero to the enable register
  0x80, and returns what the bus answers; twice in a row it writes zero twice, and both
  calls succeed when the bus accepts the writes.
\<close>

lemma Halt_writes_zero:
  "Halt d = (wr8 (dev d) (xfers (dev d)) 0x80 0,
             d\<lparr>dev := (dev d)\<lparr>xfers := xfers (dev d) @ [WrUint8 0x80 0 (wr8 (dev d) (xfers (dev d)) 0x80 0)]\<rparr>\<rparr>)"
  by (simp add: Halt_def WriteUint8_def Let_def regs)

lemma Halt_twice:
  assumes "wr8 (dev d) (xfers (dev d)) 0x80 0 = None"
    and "wr8 (dev d) (xfers (dev d) @ [WrUint8 0x80 0 None]) 0x80 0 = None"
  shows "fst (Halt d) = None" and "fst (Halt (snd (Halt d))) = None"
    and "xfers (dev (snd (Halt (snd (Halt d))))) = xfers (dev d) @ [WrUint8 0x80 0 None, WrUint8 0x80 0 None]"
  using assms by (simp_all add: Halt_writes_zero)

text \<open>
  C9. \<^verbatim>\<open>Halt\<close> of tcs3472.go, the one the command-line reader calls, returns \<^verbatim>\<open>nil\<close> and
  makes no transaction: the enable register is not written, neither by one call nor by
  two. On the handle that \<^verbatim>\<open>New\<close> returns for the steady device the transactions after
  \<^verbatim>\<open>Halt\<close> are the three of \<^verbatim>\<open>New\<close>, the last write to the enable register being the 3
  that powers the device on.
\<close>

theorem Halt_exp_writes_nothing:
  "Halt_exp d = (None, d)
   \<and> fst (Halt_exp (snd (Halt_exp d))) = None
   \<and> xfers (dev (snd (Halt_exp (snd (Halt_exp d))))) = xfers (dev d)
   \<and> xfers (dev (snd (Halt_exp (the (fst (fst (New steady_bus)))))))
       = [RdUint8 0x92 0x44 None, WrUint8 0x80 3 None, WrUint8 0x81 43 None]"
  by (simp add: Halt_exp_def New_steady_bus)

subsection \<open>The command-line reader\<close>

lemma Valid_reads_status:
  "Valid d =
     (let s = rd8 (dev d) (xfers (dev d)) cmdStatus
      in ((if snd s \<noteq> None then False else 0 < fst s AND statusValid, snd s),
          d\<lparr>dev := (dev d)\<lparr>xfers := xfers (dev d) @ [RdUint8 cmdStatus (fst s) (snd s)]\<rparr>\<rparr>))"
  by (simp add: Valid_def ReadUint8_def Let_def split_def)

lemma ticker_made:
  assumes "0 \<le> sint (interval :: Duration)"
  shows "\<not> (interval \<noteq> 0 \<and> interval \<le>s 0)"
  using assms signed_eq_0_iff [of interval, where ?'a = int]
  by (auto simp add: word_sle_eq)

text \<open>
  C10. When the call of \<^verbatim>\<open>Valid\<close> in \<^verbatim>\<open>read\<close> is reached (the interval is not negative,
  so no ticker panics) and returns false without an error, \<^verbatim>\<open>read\<close> returns \<^verbatim>\<open>nil\<close>
  whatever the fuel: the only transaction it makes is the read of the status register,
  so \<^verbatim>\<open>Measure\<close> is not called, and nothing is printed. The process that opened the
  handle then exits with status 0, with nothing on the standard output.
\<close>

theorem read_returns_when_not_valid:
  fixes d :: Dev and interval :: Duration
  assumes "0 \<le> sint interval" and "fst (Valid d) = (False, None)"
  shows "read fuel d interval out = Some (Returns None, snd (Valid d), out)
       \<and> xfers (dev (snd (Valid d)))
           = xfers (dev d) @ [RdUint8 cmdStatus (fst (rd8 (dev d) (xfers (dev d)) cmdStatus)) None]
       \<and> (New b = ((Some d, None), b') \<longrightarrow>
            main fuel None (b, None) interval
              = Some \<lparr>status = ExitStatus 0, stderr = None, bus = dev (snd (Valid d)), stdout = []\<rparr>)"
proof -
  note t = ticker_made [OF assms(1)]
  have rd: "read fuel d interval out = Some (Returns None, snd (Valid d), out)" for out
    using assms(2) t by (simp add: read_def Let_def split_def)
  moreover have "xfers (dev (snd (Valid d)))
           = xfers (dev d) @ [RdUint8 cmdStatus (fst (rd8 (dev d) (xfers (dev d)) cmdStatus)) None]"
    using assms(2) by (simp add: Valid_reads_status Let_def split: if_splits)
  moreover have "main fuel None (b, None) interval
      = Some \<lparr>status = ExitStatus 0, stderr = None, bus = dev (snd (Valid d)), stdout = []\<rparr>"
    if "New b = ((Some d, None), b')"
    using that by (simp add: main_def mainImpl_def rd Halt_exp_def)
  ultimately show ?thesis
    by blast
qed

lemma New_busy_bus:
  "New busy_bus =
     ((Some \<lparr>dev = busy_bus\<lparr>xfers := [RdUint8 0x92 0x44 None, WrUint8 0x80 3 None, WrUint8 0x81 43 None]\<rparr>,
             maxCount = 44032\<rparr>, None),
      busy_bus\<lparr>xfers := [RdUint8 0x92 0x44 None, WrUint8 0x80 3 None, WrUint8 0x81 43 None]\<rparr>)"
  by (simp add: New_def SetIntegrationTime_511 ReadUint8_def WriteUint8_def Let_def busy_bus_def
      steady_bus_def regs enable_bits chipID_def)

theorem read_returns_when_not_valid_witness:
  "0 \<le> sint (0 :: Duration)
   \<and> fst (Valid (the (fst (fst (New busy_bus))))) = (False, None)
   \<and> read 0 (the (fst (fst (New busy_bus)))) 0 []
       = Some (Returns None, snd (Valid (the (fst (fst (New busy_bus))))), [])
   \<and> xfers (dev (snd (Valid (the (fst (fst (New busy_bus)))))))
       = [RdUint8 0x92 0x44 None, WrUint8 0x80 3 None, WrUint8 0x81 43 None, RdUint8 0x93 0x10 None]
   \<and> main 0 None (busy_bus, None) 0
       = Some \<lparr>status = ExitStatus 0, stderr = None,
               bus = dev (snd (Valid (the (fst (fst (New busy_bus)))))), stdout = []\<rparr>"
proof -
  let ?d = "the (fst (fst (New busy_bus)))"
  have i: "0 \<le> sint (0 :: Duration)"
    by simp
  have h: "?d = \<lparr>dev = busy_bus\<lparr>xfers := [RdUint8 0x92 0x44 None, WrUint8 0x80 3 None, WrUint8 0x81 43 None]\<rparr>,
                  maxCount = 44032\<rparr>"
    by (simp add: New_busy_bus)
  have s: "rd8 busy_bus hist cmdStatus = (0x10, None)" for hist
    by (simp add: busy_bus_def steady_bus_def regs)
  have v: "fst (Valid ?d) = (False, None)"
    unfolding h by (simp add: Valid_reads_status Let_def s statusValid_def)
  have n: "New busy_bus = ((Some ?d, None), snd (New busy_bus))"
    by (simp add: New_busy_bus)
  have x: "xfers (dev ?d) @ [RdUint8 cmdStatus (fst (rd8 (dev ?d) (xfers (dev ?d)) cmdStatus)) None]
      = [RdUint8 0x92 0x44 None, WrUint8 0x80 3 None, WrUint8 0x81 43 None, RdUint8 0x93 0x10 None]"
    unfolding h by (simp add: s) (simp add: regs)
  show ?thesis
    using read_returns_when_not_valid [OF i v, of 0 "[]" busy_bus "snd (New busy_bus)"] i v n x
    by simp
qed

subsection \<open>The count over the lifetime of a handle\<close>

lemma latest_atime_append:
  "latest_atime any (xs @ ys) =
     (case latest_atime any ys of Some v \<Rightarrow> Some v | None \<Rightarrow> latest_atime any xs)"
  by (induction xs) (simp_all split: option.splits)

lemma atime_attempted_append:
  "atime_attempted (xs @ ys) =
     (case atime_attempted ys of Some v \<Rightarrow> Some v | None \<Rightarrow> atime_attempted xs)"
  unfolding atime_attempted_def by (rule latest_atime_append)

lemma atime_attempted_single:
  "atime_attempted [] = None"
  "atime_attempted (RdUint8 reg v e # xs) = atime_attempted xs"
  "atime_attempted (RdUint16 reg w e # xs) = atime_attempted xs"
  "atime_attempted (WrUint8 reg v e # xs) =
     (case atime_attempted xs of Some u \<Rightarrow> Some u | None \<Rightarrow> if reg = cmdATime then Some v else None)"
  by (simp_all add: atime_attempted_def split: option.splits)

lemma SetIntegrationTime_tracks:
  assumes "tracks_attempt d"
  shows "tracks_attempt (snd (SetIntegrationTime dur d))"
proof (cases "dur <s 2400 * Microsecond \<or> 612 * Millisecond <s dur")
  case True
  then show ?thesis
    using assms by (simp add: SetIntegrationTime_refuses)
next
  case False
  then have "2400 * Microsecond \<le>s dur" and "dur \<le>s 612 * Millisecond"
    by (simp_all add: in_range_guard)
  then show ?thesis
    by (simp add: SetIntegrationTime_writes Let_def tracks_attempt_def MaxCount_def
        atime_attempted_append atime_attempted_single)
qed

lemma other_calls_keep:
  "maxCount (snd (SetGain g d)) = maxCount d"
  "atime_attempted (xfers (dev (snd (SetGain g d)))) = atime_attempted (xfers (dev d))"
  "snd (SetGain_exp g d) = d"
  "maxCount (snd (Halt d)) = maxCount d"
  "atime_attempted (xfers (dev (snd (Halt d)))) = atime_attempted (xfers (dev d))"
  "snd (Halt_exp d) = d"
  "maxCount (snd (Valid d)) = maxCount d"
  "atime_attempted (xfers (dev (snd (Valid d)))) = atime_attempted (xfers (dev d))"
  by (simp_all add: SetGain_def SetGain_exp_def Halt_def Halt_exp_def Valid_def WriteUint8_def
      ReadUint8_def Let_def split_def atime_attempted_append atime_attempted_single regs)

lemma MeasureRaw_keeps:
  "maxCount (snd (MeasureRaw d)) = maxCount d"
  "atime_attempted (xfers (dev (snd (MeasureRaw d)))) = atime_attempted (xfers (dev d))"
  by (simp_all add: MeasureRaw_def ReadUint16_def Let_def split_def atime_attempted_append
      atime_attempted_single)

lemma Measure_keeps:
  "maxCount (snd (Measure l d)) = maxCount d"
  "atime_attempted (xfers (dev (snd (Measure l d)))) = atime_attempted (xfers (dev d))"
  by (simp_all add: Measure_def split_def Let_def MeasureRaw_keeps)

lemma Measure_exp_keeps:
  "maxCount (snd (Measure_exp l d)) = maxCount d"
  "atime_attempted (xfers (dev (snd (Measure_exp l d)))) = atime_attempted (xfers (dev d))"
  by (simp_all add: Measure_exp_def ReadUint16_def Let_def split_def atime_attempted_append
      atime_attempted_single)

lemma exec_keeps_maxCount:
  assumes "\<forall>dur. c \<noteq> CallSetIntegrationTime dur"
  shows "MaxCount (exec c d) = MaxCount d"
  using assms
  by (cases c) (simp_all add: MaxCount_def other_calls_keep MeasureRaw_keeps Measure_keeps Measure_exp_keeps)

lemma exec_tracks:
  assumes "tracks_attempt d"
  shows "tracks_attempt (exec c d)"
proof (cases c)
  case (CallSetIntegrationTime dur)
  then show ?thesis
    using assms by (simp add: SetIntegrationTime_tracks)
qed (use assms in \<open>simp_all add: tracks_attempt_def MaxCount_def other_calls_keep MeasureRaw_keeps
      Measure_keeps Measure_exp_keeps\<close>)

lemma run_tracks:
  assumes "tracks_attempt d"
  shows "tracks_attempt (run cs d)"
  using assms
proof (induction cs arbitrary: d)
  case Nil
  then show ?case by (simp add: run_def)
next
  case (Cons c cs)
  from Cons.prems have "tracks_attempt (exec c d)"
    by (rule exec_tracks)
  then have "tracks_attempt (run cs (exec c d))"
    by (rule Cons.IH)
  then show ?case
    by (simp add: run_def)
qed

lemma New_tracks:
  assumes "fst (New b) = (Some d, None)"
  shows "tracks_attempt d"
proof -
  define d1 where "d1 = \<lparr>dev = snd (WriteUint8 cmdEnable (enablePower OR enableRGBC) (snd (ReadUint8 cmdChipID b))),
                         maxCount = 0\<rparr>"
  have "d = snd (SetIntegrationTime (511 * Millisecond) d1)"
    using assms unfolding d1_def
    by (simp add: New_def Let_def split_def split: if_splits)
  then show ?thesis
    by (simp add: SetIntegrationTime_511 tracks_attempt_def MaxCount_def atime_attempted_append
        atime_attempted_single regs derived_count_def)
qed


text \<open>
  C4, as amended. At every point of the lifetime of a handle that \<^verbatim>\<open>New\<close> returned,
  whatever calls were made on it, \<^verbatim>\<open>MaxCount\<close> is the count \<open>min (atime * 1024) 65535\<close>
  derived from the value of the latest write to the ATIME register that was attempted,
  accepted by the bus or not; so it is the count derived from the latest value written
  with success whenever that is also the latest value attempted. No call other than
  \<^verbatim>\<open>SetIntegrationTime\<close> changes \<^verbatim>\<open>MaxCount\<close>.
\<close>

theorem maxCount_follows_attempted_write:
  assumes "fst (New b) = (Some d0, None)"
  shows "(\<exists>a. atime_attempted (xfers (dev (run cs d0))) = Some a
            \<and> MaxCount (run cs d0) = derived_count a)
       \<and> (atime_written (xfers (dev (run cs d0))) = atime_attempted (xfers (dev (run cs d0))) \<longrightarrow>
            (\<exists>a. atime_written (xfers (dev (run cs d0))) = Some a
                 \<and> MaxCount (run cs d0) = derived_count a))
       \<and> (\<forall>c. (\<forall>dur. c \<noteq> CallSetIntegrationTime dur) \<longrightarrow>
              MaxCount (exec c (run cs d0)) = MaxCount (run cs d0))"
proof -
  have "tracks_attempt (run cs d0)"
    using assms by (intro run_tracks New_tracks)
  then have "\<exists>a. atime_attempted (xfers (dev (run cs d0))) = Some a
            \<and> MaxCount (run cs d0) = derived_count a"
    by (simp add: tracks_attempt_def)
  then show ?thesis
    by (auto simp add: exec_keeps_maxCount)
qed

lemma New_failing_bus:
  "New failing_bus =
     ((Some \<lparr>dev = failing_bus\<lparr>xfers := [RdUint8 0x92 0x44 None, WrUint8 0x80 3 None, WrUint8 0x81 43 None]\<rparr>,
             maxCount = 44032\<rparr>, None),
      failing_bus\<lparr>xfers := [RdUint8 0x92 0x44 None, WrUint8 0x80 3 None, WrUint8 0x81 43 None]\<rparr>)"
  by (simp add: New_def SetIntegrationTime_511 ReadUint8_def WriteUint8_def Let_def failing_bus_def
      steady_bus_def regs enable_bits chipID_def)

lemma atime_written_single:
  "atime_written [] = None"
  "atime_written (RdUint8 reg v e # xs) = atime_written xs"
  "atime_written (RdUint16 reg w e # xs) = atime_written xs"
  "atime_written (WrUint8 reg v e # xs) =
     (case atime_written xs of Some u \<Rightarrow> Some u
      | None \<Rightarrow> if reg = cmdATime \<and> e = None then Some v else None)"
  by (simp_all add: atime_written_def split: option.splits)

lemma SetIntegrationTime_612:
  "SetIntegrationTime (612 * Millisecond) d =
     (wr8 (dev d) (xfers (dev d)) 0x81 0,
      \<lparr>dev = (dev d)\<lparr>xfers := xfers (dev d) @ [WrUint8 0x81 0 (wr8 (dev d) (xfers (dev d)) 0x81 0)]\<rparr>,
       maxCount = 0\<rparr>)"
  by (simp add: SetIntegrationTime_def WriteUint8_def Let_def regs
      int64_quo_def signed_divide_int_def Microsecond_def Millisecond_def)

text \<open>
  C4, as stated, fails after a refused write. \<^verbatim>\<open>New\<close> writes 43 to the ATIME register with
  success; the bus then refuses the write of \<^verbatim>\<open>SetIntegrationTime\<close> at 612 ms. The latest
  value written with success is still 43, which implies a count of 44032 by the
  derivation of the driver and of 65535 by the formula of its comment, and \<^verbatim>\<open>MaxCount\<close>
  is 0.
\<close>

theorem maxCount_after_refused_write_counterexample:
  "fst (fst (New failing_bus)) \<noteq> None
   \<and> atime_written (xfers (dev (run [CallSetIntegrationTime (612 * Millisecond)]
        (the (fst (fst (New failing_bus))))))) = Some 43
   \<and> derived_count 43 = 44032
   \<and> documented_count 43 = 65535
   \<and> MaxCount (run [CallSetIntegrationTime (612 * Millisecond)] (the (fst (fst (New failing_bus))))) = 0"
  by (simp add: New_failing_bus run_def SetIntegrationTime_612 MaxCount_def atime_written_single regs
      derived_count_def documented_count_def)
     (simp add: failing_bus_def steady_bus_def)

theorem maxCount_follows_attempted_write_witness:
  "fst (New steady_bus) = (Some (the (fst (fst (New steady_bus)))), None)
   \<and> atime_attempted (xfers (dev (run [CallSetIntegrationTime (612 * Millisecond), CallValid, CallHalt]
        (the (fst (fst (New steady_bus))))))) = Some 0
   \<and> atime_written (xfers (dev (run [CallSetIntegrationTime (612 * Millisecond), CallValid, CallHalt]
        (the (fst (fst (New steady_bus))))))) = Some 0
   \<and> MaxCount (run [CallSetIntegrationTime (612 * Millisecond), CallValid, CallHalt]
        (the (fst (fst (New steady_bus))))) = derived_count 0
   \<and> (\<forall>dur. CallHalt \<noteq> CallSetIntegrationTime dur)
   \<and> MaxCount (exec CallHalt (run [CallSetIntegrationTime (612 * Millisecond), CallValid, CallHalt]
        (the (fst (fst (New steady_bus)))))) = derived_count 0"
proof -
  let ?d0 = "the (fst (fst (New steady_bus)))"
  let ?cs = "[CallSetIntegrationTime (612 * Millisecond), CallValid, CallHalt]"
  have n: "fst (New steady_bus) = (Some ?d0, None)"
    by (simp add: New_steady_bus)
  have x: "xfers (dev (run ?cs ?d0)) =
      [RdUint8 0x92 0x44 None, WrUint8 0x80 3 None, WrUint8 0x81 43 None,
       WrUint8 0x81 0 None, RdUint8 0x93 1 None, WrUint8 0x80 0 None]"
    by (simp add: New_steady_bus run_def SetIntegrationTime_612 Valid_reads_status Halt_writes_zero Let_def)
       (simp add: steady_bus_def regs)
  have w: "atime_written (xfers (dev (run ?cs ?d0))) = Some 0"
    and a: "atime_attempted (xfers (dev (run ?cs ?d0))) = Some 0"
    unfolding x by (simp_all add: atime_written_single atime_attempted_single regs)
  have h: "\<forall>dur. CallHalt \<noteq> CallSetIntegrationTime dur"
    by simp
  from maxCount_follows_attempted_write [OF n, of ?cs] w a h
  have "MaxCount (run ?cs ?d0) = derived_count 0"
    and "MaxCount (exec CallHalt (run ?cs ?d0)) = MaxCount (run ?cs ?d0)"
    by auto
  with n w a h show ?thesis
    by simp
qed

end
